theory Spec2Isabelle
  imports Main "HOL-Library.Word"
begin

section \<open>The JNI bridge of faceai-jni.cpp\<close>

text \<open>
  The file holds one function,
  \<^verbatim>\<open>Java_com_felix_face_YuvToRgbConverter_nativeConvertAndroid420ToBitmap\<close>.
  It queries the output bitmap, locks its pixels, resolves the three source buffers to
  addresses, calls \<^verbatim>\<open>libyuv::Android420ToABGR\<close> and unlocks the bitmap. Everything it
  calls belongs to the platform (the NDK bitmap API, JNI, libyuv); the model takes these
  calls as the fields of a record and threads the memory, the lock count of every bitmap
  and the log of the calls made through the function, in the order of the source.
\<close>

subsection \<open>Data\<close>

type_synonym jint = "32 word"
type_synonym uint32_t = "32 word"
type_synonym uint8_t = "8 word"

text \<open>A \<^verbatim>\<open>jobject\<close> is an opaque handle. An address is an integer, \<^verbatim>\<open>NULL\<close> is 0.\<close>

type_synonym jobject = nat
type_synonym address = int
type_synonym memory = "address \<Rightarrow> uint8_t"

record AndroidBitmapInfo =
  info_width :: uint32_t
  info_height :: uint32_t
  info_stride :: uint32_t
  info_format :: jint
  info_flags :: uint32_t

text \<open>The parameters of the JNI function after \<^verbatim>\<open>env\<close> and \<^verbatim>\<open>thiz\<close>, in its order.\<close>

record call_args =
  y_buffer :: jobject
  y_stride :: jint
  u_buffer :: jobject
  u_stride :: jint
  u_pixel_stride :: jint
  v_buffer :: jobject
  v_stride :: jint
  v_pixel_stride :: jint
  width :: jint
  height :: jint
  output_bitmap :: jobject

text \<open>The parameters of \<^verbatim>\<open>libyuv::Android420ToABGR\<close>, in its order.\<close>

record yuv_args =
  src_y :: address
  src_stride_y :: jint
  src_u :: address
  src_stride_u :: jint
  src_v :: address
  src_stride_v :: jint
  src_pixel_stride_uv :: jint
  dst_abgr :: address
  dst_stride_abgr :: jint
  dst_width :: jint
  dst_height :: jint

text \<open>
  The platform: what each external call answers. \<open>getInfo\<close> and \<open>lockPixels\<close> give
  the status code and the value stored through the out-parameter; the conversion routine
  is a function on the memory (its status code is dropped by the source).
\<close>

record platform =
  getInfo :: "jobject \<Rightarrow> jint \<times> AndroidBitmapInfo"
  lockPixels :: "jobject \<Rightarrow> jint \<times> address"
  DirectBufferAddress :: "jobject \<Rightarrow> address"
  Android420ToABGR :: "yuv_args \<Rightarrow> memory \<Rightarrow> memory"

datatype event =
  Called_getInfo jobject
  | Called_lockPixels jobject
  | Called_GetDirectBufferAddress jobject
  | Called_Android420ToABGR yuv_args
  | Called_unlockPixels jobject

record world =
  mem :: memory
  locked :: "jobject \<Rightarrow> nat"
  calls :: "event list"

text \<open>
  The source returns \<^verbatim>\<open>void\<close>. Its two early \<^verbatim>\<open>return\<close> statements (lines 16 and
  17) are the two failures of the model; reaching the end of the body is \<open>Inr ()\<close>.
\<close>

datatype early_return = GetInfoFailed | LockPixelsFailed

text \<open>
  What the caller is told. The error values are the two of the specification (section 7).
  The function is declared \<^verbatim>\<open>void\<close> (line 6), its two early returns are bare
  \<^verbatim>\<open>return;\<close> statements (lines 16 and 17) and its body ends after the unlock (line
  41): on each of the three ways out the caller receives no error value.
\<close>

datatype ConversionError = BufferAccessError | InvalidDimensionsError

fun reported :: "early_return + unit \<Rightarrow> ConversionError option" where
  "reported (Inl GetInfoFailed) = None"
| "reported (Inl LockPixelsFailed) = None"
| "reported (Inr u) = None"

subsection \<open>The external calls\<close>

definition AndroidBitmap_getInfo ::
  "platform \<Rightarrow> jobject \<Rightarrow> world \<Rightarrow> (jint \<times> AndroidBitmapInfo) \<times> world" where
  "AndroidBitmap_getInfo p b w = (getInfo p b, w\<lparr>calls := calls w @ [Called_getInfo b]\<rparr>)"

text \<open>A lock that succeeds (status not negative) is counted; one that fails is not.\<close>

definition AndroidBitmap_lockPixels ::
  "platform \<Rightarrow> jobject \<Rightarrow> world \<Rightarrow> (jint \<times> address) \<times> world" where
  "AndroidBitmap_lockPixels p b w =
     (lockPixels p b,
      w\<lparr>locked := (if sint (fst (lockPixels p b)) < 0 then locked w
                    else (locked w)(b := Suc (locked w b))),
        calls := calls w @ [Called_lockPixels b]\<rparr>)"

definition AndroidBitmap_unlockPixels :: "platform \<Rightarrow> jobject \<Rightarrow> world \<Rightarrow> world" where
  "AndroidBitmap_unlockPixels p b w =
     w\<lparr>locked := (locked w)(b := locked w b - 1),
       calls := calls w @ [Called_unlockPixels b]\<rparr>"

definition GetDirectBufferAddress :: "platform \<Rightarrow> jobject \<Rightarrow> world \<Rightarrow> address \<times> world" where
  "GetDirectBufferAddress p h w =
     (DirectBufferAddress p h, w\<lparr>calls := calls w @ [Called_GetDirectBufferAddress h]\<rparr>)"

definition libyuv_Android420ToABGR :: "platform \<Rightarrow> yuv_args \<Rightarrow> world \<Rightarrow> world" where
  "libyuv_Android420ToABGR p a w =
     w\<lparr>mem := Android420ToABGR p a (mem w),
       calls := calls w @ [Called_Android420ToABGR a]\<rparr>"

subsection \<open>The function\<close>

definition nativeConvertAndroid420ToBitmap ::
  "platform \<Rightarrow> call_args \<Rightarrow> world \<Rightarrow> (early_return + unit) \<times> world" where
  "nativeConvertAndroid420ToBitmap p a w0 =
     (let ((rc_info, info), w1) = AndroidBitmap_getInfo p (output_bitmap a) w0 in
      if sint rc_info < 0 then (Inl GetInfoFailed, w1)
      else
        let ((rc_lock, pixels), w2) = AndroidBitmap_lockPixels p (output_bitmap a) w1 in
        if sint rc_lock < 0 then (Inl LockPixelsFailed, w2)
        else
          let (sy, w3) = GetDirectBufferAddress p (y_buffer a) w2;
              (su, w4) = GetDirectBufferAddress p (u_buffer a) w3;
              (sv, w5) = GetDirectBufferAddress p (v_buffer a) w4;
              w6 = libyuv_Android420ToABGR p
                     \<lparr>src_y = sy, src_stride_y = y_stride a,
                      src_u = su, src_stride_u = u_stride a,
                      src_v = sv, src_stride_v = v_stride a,
                      src_pixel_stride_uv = u_pixel_stride a,
                      dst_abgr = pixels, dst_stride_abgr = info_stride info,
                      dst_width = width a, dst_height = height a\<rparr> w5;
              w7 = AndroidBitmap_unlockPixels p (output_bitmap a) w6
          in (Inr (), w7))"

subsection \<open>Reading a run\<close>

text \<open>The arguments every conversion of a call log was made with, in order.\<close>

fun conversions :: "event list \<Rightarrow> yuv_args list" where
  "conversions [] = []"
| "conversions (Called_Android420ToABGR a # es) = a # conversions es"
| "conversions (_ # es) = conversions es"

text \<open>The part of the log a call added to the log it started with.\<close>

definition new_calls :: "world \<Rightarrow> world \<Rightarrow> event list" where
  "new_calls w w' = drop (length (calls w)) (calls w')"

text \<open>
  The arguments the function hands to the conversion when it gets that far: the three
  resolved addresses, the strides as given, the pixel stride of the U plane, the locked
  pixels and the stride of the bitmap's descriptor.
\<close>

definition conversion_args :: "platform \<Rightarrow> call_args \<Rightarrow> yuv_args" where
  "conversion_args p a =
     \<lparr>src_y = DirectBufferAddress p (y_buffer a), src_stride_y = y_stride a,
      src_u = DirectBufferAddress p (u_buffer a), src_stride_u = u_stride a,
      src_v = DirectBufferAddress p (v_buffer a), src_stride_v = v_stride a,
      src_pixel_stride_uv = u_pixel_stride a,
      dst_abgr = snd (lockPixels p (output_bitmap a)),
      dst_stride_abgr = info_stride (snd (getInfo p (output_bitmap a))),
      dst_width = width a, dst_height = height a\<rparr>"

text \<open>The log of a call that runs to the end of the body.\<close>

definition full_run :: "platform \<Rightarrow> call_args \<Rightarrow> event list" where
  "full_run p a =
     [Called_getInfo (output_bitmap a), Called_lockPixels (output_bitmap a),
      Called_GetDirectBufferAddress (y_buffer a),
      Called_GetDirectBufferAddress (u_buffer a),
      Called_GetDirectBufferAddress (v_buffer a),
      Called_Android420ToABGR (conversion_args p a),
      Called_unlockPixels (output_bitmap a)]"

section \<open>The conversion routine, as the specification describes it\<close>

text \<open>
  Modelled from the spec: \<^verbatim>\<open>libyuv::Android420ToABGR\<close> is called by the source and is
  not part of it. The specification (4.1, step 3) describes the routine: it reconstructs
  full-resolution chroma from the U and V planes, using the supplied pixel stride to tell
  planar from interleaved chroma, applies the YUV to RGB transform per pixel, and writes
  the packed result row by row honouring the destination stride; pixel (x, y) occupies the
  four bytes from \<open>stride * y + 4 * x\<close> on, in the order B, G, R, A. The transform of
  one sample to one colour is left open by the specification and is a parameter here.
\<close>

datatype colour = Colour (blue: uint8_t) (green: uint8_t) (red: uint8_t) (alpha: uint8_t)

type_synonym transform = "uint8_t \<Rightarrow> uint8_t \<Rightarrow> uint8_t \<Rightarrow> colour"

text \<open>
  Modelled from the spec: the number of columns and rows converted; a width or height
  that is not positive gives none.
\<close>

definition cols :: "yuv_args \<Rightarrow> nat" where
  "cols a = nat (sint (dst_width a))"

definition rows :: "yuv_args \<Rightarrow> nat" where
  "rows a = nat (sint (dst_height a))"

text \<open>
  Modelled from the spec: where the samples of pixel (x, y) are read. Luma has one sample
  per pixel; chroma has one sample per 2 by 2 block (4:2:0), its columns
  \<open>src_pixel_stride_uv\<close> bytes apart: 1 for planar chroma, 2 for interleaved chroma.
\<close>

definition luma_address :: "yuv_args \<Rightarrow> nat \<Rightarrow> nat \<Rightarrow> address" where
  "luma_address a x y = src_y a + sint (src_stride_y a) * int y + int x"

definition u_address :: "yuv_args \<Rightarrow> nat \<Rightarrow> nat \<Rightarrow> address" where
  "u_address a x y =
     src_u a + sint (src_stride_u a) * int (y div 2)
       + sint (src_pixel_stride_uv a) * int (x div 2)"

definition v_address :: "yuv_args \<Rightarrow> nat \<Rightarrow> nat \<Rightarrow> address" where
  "v_address a x y =
     src_v a + sint (src_stride_v a) * int (y div 2)
       + sint (src_pixel_stride_uv a) * int (x div 2)"

definition pixel_colour :: "transform \<Rightarrow> yuv_args \<Rightarrow> memory \<Rightarrow> nat \<Rightarrow> nat \<Rightarrow> colour" where
  "pixel_colour tf a m x y =
     tf (m (luma_address a x y)) (m (u_address a x y)) (m (v_address a x y))"

text \<open>
  Modelled from the spec: where pixel (x, y) is written, and the order of its four bytes.
\<close>

definition pixel_address :: "yuv_args \<Rightarrow> nat \<Rightarrow> nat \<Rightarrow> address" where
  "pixel_address a x y = dst_abgr a + sint (dst_stride_abgr a) * int y + 4 * int x"

definition store_pixel :: "address \<Rightarrow> colour \<Rightarrow> memory \<Rightarrow> memory" where
  "store_pixel d c m = m(d := blue c, d + 1 := green c, d + 2 := red c, d + 3 := alpha c)"

definition colour_bytes :: "colour \<Rightarrow> uint8_t list" where
  "colour_bytes c = [blue c, green c, red c, alpha c]"

text \<open>
  Modelled from the spec: the two loops. \<open>convert_row tf a y n\<close> converts the first
  \<open>n\<close> pixels of row \<open>y\<close> from left to right, \<open>convert_rows tf a r\<close> the first
  \<open>r\<close> rows from the top; every pixel is computed from the memory as it is when the
  pixel is reached.
\<close>

fun convert_row :: "transform \<Rightarrow> yuv_args \<Rightarrow> nat \<Rightarrow> nat \<Rightarrow> memory \<Rightarrow> memory" where
  "convert_row tf a y 0 m = m"
| "convert_row tf a y (Suc x) m =
     (let m' = convert_row tf a y x m
      in store_pixel (pixel_address a x y) (pixel_colour tf a m' x y) m')"

fun convert_rows :: "transform \<Rightarrow> yuv_args \<Rightarrow> nat \<Rightarrow> memory \<Rightarrow> memory" where
  "convert_rows tf a 0 m = m"
| "convert_rows tf a (Suc y) m = convert_row tf a y (cols a) (convert_rows tf a y m)"

text \<open>Modelled from the spec: the routine converts all rows.\<close>

definition Android420ToABGR_spec :: "transform \<Rightarrow> yuv_args \<Rightarrow> memory \<Rightarrow> memory" where
  "Android420ToABGR_spec tf a m = convert_rows tf a (rows a) m"

section \<open>The destination of a call and the constraints on its inputs\<close>

text \<open>
  The destination of a call: the locked pixels and the stride of the bitmap's descriptor,
  read as the \<^verbatim>\<open>int\<close> the routine takes.
\<close>

definition destination :: "platform \<Rightarrow> call_args \<Rightarrow> address" where
  "destination p a = snd (lockPixels p (output_bitmap a))"

definition destination_stride :: "platform \<Rightarrow> call_args \<Rightarrow> int" where
  "destination_stride p a = sint (info_stride (snd (getInfo p (output_bitmap a))))"

text \<open>
  The destination region of \<open>stride * height\<close> bytes, and the bytes of the pixels of
  row \<open>y\<close> within it.
\<close>

definition in_destination :: "yuv_args \<Rightarrow> address \<Rightarrow> bool" where
  "in_destination a d \<longleftrightarrow>
     dst_abgr a \<le> d \<and> d < dst_abgr a + sint (dst_stride_abgr a) * int (rows a)"

definition in_row :: "yuv_args \<Rightarrow> nat \<Rightarrow> address \<Rightarrow> bool" where
  "in_row a y d \<longleftrightarrow>
     pixel_address a 0 y \<le> d \<and> d < pixel_address a 0 y + 4 * int (cols a)"

text \<open>
  The specification requires that the destination aliases no source plane: no sample of
  the image is read from the destination region.
\<close>

definition sources_apart :: "yuv_args \<Rightarrow> bool" where
  "sources_apart a \<longleftrightarrow>
     list_all (\<lambda>y. list_all (\<lambda>x.
         \<not> in_destination a (luma_address a x y)
       \<and> \<not> in_destination a (u_address a x y)
       \<and> \<not> in_destination a (v_address a x y)) [0..<cols a]) [0..<rows a]"

text \<open>
  An image as data: one luma sample for every pixel, one U and one V sample for every
  2 by 2 block of pixels (4:2:0).
\<close>

record image =
  luma :: "nat \<Rightarrow> nat \<Rightarrow> uint8_t"
  chroma_u :: "nat \<Rightarrow> nat \<Rightarrow> uint8_t"
  chroma_v :: "nat \<Rightarrow> nat \<Rightarrow> uint8_t"

text \<open>
  The two chroma layouts of the specification: fully planar chroma (the samples of a
  plane are contiguous, one byte apart) and interleaved chroma (the samples of a plane
  are two bytes apart, those of the other plane in between).
\<close>

datatype chroma_layout = Planar | Interleaved

fun chroma_step :: "chroma_layout \<Rightarrow> int" where
  "chroma_step Planar = 1"
| "chroma_step Interleaved = 2"

text \<open>
  The buffers of a conversion encode an image in a layout when every luma sample lies at
  its place of the Y plane and every chroma sample at its place of the U and the V
  plane, \<open>chroma_step\<close> bytes apart within a row. The definition reads the layout, not
  the pixel stride handed to the routine.
\<close>

definition encodes :: "image \<Rightarrow> chroma_layout \<Rightarrow> yuv_args \<Rightarrow> memory \<Rightarrow> bool" where
  "encodes img l a m \<longleftrightarrow>
     list_all (\<lambda>y. list_all (\<lambda>x.
         m (src_y a + sint (src_stride_y a) * int y + int x) = luma img x y)
       [0..<cols a]) [0..<rows a]
   \<and> list_all (\<lambda>j. list_all (\<lambda>i.
         m (src_u a + sint (src_stride_u a) * int j + chroma_step l * int i) = chroma_u img i j
       \<and> m (src_v a + sint (src_stride_v a) * int j + chroma_step l * int i) = chroma_v img i j)
       [0..<(cols a + 1) div 2]) [0..<(rows a + 1) div 2]"

text \<open>The colour of pixel (x, y) of an image: the transform of its three samples.\<close>

definition image_colour :: "transform \<Rightarrow> image \<Rightarrow> nat \<Rightarrow> nat \<Rightarrow> colour" where
  "image_colour tf img x y =
     tf (luma img x y) (chroma_u img (x div 2) (y div 2)) (chroma_v img (x div 2) (y div 2))"

section \<open>Example inputs\<close>

subsection \<open>An example platform\<close>

text \<open>
  A platform to run the function on: bitmap 8 cannot be queried
  (\<^verbatim>\<open>ANDROID_BITMAP_RESULT_BAD_PARAMETER\<close>, -1), bitmap 9 can be queried and cannot be
  locked (\<^verbatim>\<open>ANDROID_BITMAP_RESULT_JNI_EXCEPTION\<close>, -2), every other bitmap is 2 by 2
  pixels with rows of 8 bytes and locks at address 1000. Buffer 0 is not a direct buffer
  (its address is \<^verbatim>\<open>NULL\<close>), buffer \<open>h\<close> lies at address \<open>100 * h\<close>. The examples of
  this section read the result, the call log and the lock count only, so the conversion
  of this platform leaves the memory as it is.
\<close>

definition demo_info :: AndroidBitmapInfo where
  "demo_info =
     \<lparr>info_width = 2, info_height = 2, info_stride = 8, info_format = 1, info_flags = 0\<rparr>"

definition demo_platform :: platform where
  "demo_platform =
     \<lparr>getInfo = (\<lambda>b. (if b = 8 then - 1 else 0, demo_info)),
      lockPixels = (\<lambda>b. if b = 9 then (- 2, 0) else (0, 1000)),
      DirectBufferAddress = (\<lambda>h. 100 * int h),
      Android420ToABGR = (\<lambda>a m. m)\<rparr>"

definition demo_world :: world where
  "demo_world = \<lparr>mem = (\<lambda>d. 0), locked = (\<lambda>b. 0), calls = []\<rparr>"

definition demo_args :: call_args where
  "demo_args =
     \<lparr>y_buffer = 1, y_stride = 2, u_buffer = 2, u_stride = 1, u_pixel_stride = 1,
      v_buffer = 3, v_stride = 1, v_pixel_stride = 1, width = 2, height = 2,
      output_bitmap = 7\<rparr>"

definition no_info_args :: call_args where
  "no_info_args = demo_args\<lparr>output_bitmap := 8\<rparr>"

definition no_lock_args :: call_args where
  "no_lock_args = demo_args\<lparr>output_bitmap := 9\<rparr>"

definition zero_size_args :: call_args where
  "zero_size_args = demo_args\<lparr>width := 0, height := 0\<rparr>"

definition null_y_args :: call_args where
  "null_y_args = demo_args\<lparr>y_buffer := 0\<rparr>"

definition null_uv_args :: call_args where
  "null_uv_args = demo_args\<lparr>u_buffer := 0, v_buffer := 0\<rparr>"

lemmas demo_defs =
  demo_info_def demo_platform_def demo_world_def demo_args_def no_info_args_def
  no_lock_args_def zero_size_args_def null_y_args_def null_uv_args_def

text \<open>
  A platform whose conversion is the routine above, for a 2 by 2 image. Buffer \<open>h\<close>
  lies at address \<open>h\<close>. The luma plane is at 100 with rows of 2 bytes, the U sample
  at 200 and the V sample at 300. Bitmap 7 has rows of 8 bytes, bitmap 6 rows of 12 bytes
  (4 bytes of padding). The transform of the example copies U, Y and V into the first,
  second and third channel.
\<close>

definition demo_transform :: transform where
  "demo_transform y u v = Colour u y v 255"

definition yuv_platform :: platform where
  "yuv_platform =
     \<lparr>getInfo = (\<lambda>b. (0, demo_info\<lparr>info_stride := (if b = 6 then 12 else 8)\<rparr>)),
      lockPixels = (\<lambda>b. (0, 1000)),
      DirectBufferAddress = (\<lambda>h. int h),
      Android420ToABGR = Android420ToABGR_spec demo_transform\<rparr>"

definition yuv_world :: world where
  "yuv_world =
     \<lparr>mem = (\<lambda>d. 0)(100 := 16, 101 := 17, 102 := 18, 103 := 19,
                     200 := 44, 300 := 55, 400 := 44, 401 := 55),
      locked = (\<lambda>b. 0), calls = []\<rparr>"

definition planar_args :: call_args where
  "planar_args =
     \<lparr>y_buffer = 100, y_stride = 2, u_buffer = 200, u_stride = 1, u_pixel_stride = 1,
      v_buffer = 300, v_stride = 1, v_pixel_stride = 1, width = 2, height = 2,
      output_bitmap = 7\<rparr>"

definition padded_args :: call_args where
  "padded_args = planar_args\<lparr>output_bitmap := 6\<rparr>"

lemmas yuv_defs =
  demo_info_def demo_transform_def yuv_platform_def yuv_world_def planar_args_def
  padded_args_def

text \<open>
  An image of 4 by 2 pixels, with two chroma samples per plane, and a memory that holds
  it twice: its luma plane at 100 (rows of 4 bytes), planar chroma at 200 (U) and 300
  (V), and interleaved chroma at 400 (U, V, U, V), so that the interleaved U plane
  starts at 400 and the V plane one byte later. Every bitmap of this platform has rows
  of 16 bytes.
\<close>

definition wide_image :: image where
  "wide_image =
     \<lparr>luma = (\<lambda>x y. of_nat (16 + 4 * y + x)),
      chroma_u = (\<lambda>i j. if i = 0 then 44 else 66),
      chroma_v = (\<lambda>i j. if i = 0 then 55 else 77)\<rparr>"

definition wide_platform :: platform where
  "wide_platform =
     \<lparr>getInfo = (\<lambda>b. (0, demo_info\<lparr>info_width := 4, info_stride := 16\<rparr>)),
      lockPixels = (\<lambda>b. (0, 1000)),
      DirectBufferAddress = (\<lambda>h. int h),
      Android420ToABGR = Android420ToABGR_spec demo_transform\<rparr>"

definition wide_world :: world where
  "wide_world =
     \<lparr>mem = (\<lambda>d. 0)(100 := 16, 101 := 17, 102 := 18, 103 := 19,
                     104 := 20, 105 := 21, 106 := 22, 107 := 23,
                     200 := 44, 201 := 66, 300 := 55, 301 := 77,
                     400 := 44, 401 := 55, 402 := 66, 403 := 77),
      locked = (\<lambda>b. 0), calls = []\<rparr>"

definition wide_planar_args :: call_args where
  "wide_planar_args =
     \<lparr>y_buffer = 100, y_stride = 4, u_buffer = 200, u_stride = 2, u_pixel_stride = 1,
      v_buffer = 300, v_stride = 2, v_pixel_stride = 1, width = 4, height = 2,
      output_bitmap = 5\<rparr>"

definition wide_interleaved_args :: call_args where
  "wide_interleaved_args =
     \<lparr>y_buffer = 100, y_stride = 4, u_buffer = 400, u_stride = 4, u_pixel_stride = 2,
      v_buffer = 401, v_stride = 4, v_pixel_stride = 2, width = 4, height = 2,
      output_bitmap = 5\<rparr>"

lemmas wide_defs =
  demo_info_def demo_transform_def wide_image_def wide_platform_def wide_world_def
  wide_planar_args_def wide_interleaved_args_def

lemmas address_defs =
  conversion_args_def destination_def destination_stride_def cols_def rows_def
  luma_address_def u_address_def v_address_def in_destination_def

section \<open>The three paths of the function\<close>

lemmas call_defs =
  nativeConvertAndroid420ToBitmap_def AndroidBitmap_getInfo_def
  AndroidBitmap_lockPixels_def AndroidBitmap_unlockPixels_def
  GetDirectBufferAddress_def libyuv_Android420ToABGR_def

lemma getInfo_failed_run:
  assumes "sint (fst (getInfo p (output_bitmap a))) < 0"
  shows "nativeConvertAndroid420ToBitmap p a w =
           (Inl GetInfoFailed, w\<lparr>calls := calls w @ [Called_getInfo (output_bitmap a)]\<rparr>)"
  using assms by (simp add: call_defs case_prod_beta)

lemma lockPixels_failed_run:
  assumes "\<not> sint (fst (getInfo p (output_bitmap a))) < 0"
    and "sint (fst (lockPixels p (output_bitmap a))) < 0"
  shows "nativeConvertAndroid420ToBitmap p a w =
           (Inl LockPixelsFailed,
            w\<lparr>calls := calls w @
                 [Called_getInfo (output_bitmap a), Called_lockPixels (output_bitmap a)]\<rparr>)"
  using assms by (simp add: call_defs case_prod_beta)

lemma completed_run:
  assumes "\<not> sint (fst (getInfo p (output_bitmap a))) < 0"
    and "\<not> sint (fst (lockPixels p (output_bitmap a))) < 0"
  shows "nativeConvertAndroid420ToBitmap p a w =
           (Inr (),
            w\<lparr>mem := Android420ToABGR p (conversion_args p a) (mem w),
              calls := calls w @ full_run p a\<rparr>)"
  using assms
  by (simp add: call_defs conversion_args_def full_run_def Let_def case_prod_beta)

lemma completed_iff:
  "fst (nativeConvertAndroid420ToBitmap p a w) = Inr ()
   \<longleftrightarrow> \<not> sint (fst (getInfo p (output_bitmap a))) < 0
     \<and> \<not> sint (fst (lockPixels p (output_bitmap a))) < 0"
  by (simp add: call_defs Let_def case_prod_beta)

lemma completed_mem:
  assumes "fst (nativeConvertAndroid420ToBitmap p a w) = Inr ()"
  shows "mem (snd (nativeConvertAndroid420ToBitmap p a w))
         = Android420ToABGR p (conversion_args p a) (mem w)"
  using assms by (simp add: completed_iff completed_run)

lemma conversions_full_run: "conversions (full_run p a) = [conversion_args p a]"
  by (simp add: full_run_def)

lemma new_calls_append: "new_calls w (w'\<lparr>calls := calls w @ es\<rparr>) = es"
  by (simp add: new_calls_def)

lemma new_calls_append_mem:
  "new_calls w (w\<lparr>mem := m, calls := calls w @ es\<rparr>) = es"
  by (simp add: new_calls_def)

lemma locked_after_run:
  "locked (snd (nativeConvertAndroid420ToBitmap p a w)) = locked w"
  by (simp add: call_defs Let_def case_prod_beta)

section \<open>The failure of the info query\<close>

text \<open>
  C10. When the query of the output bitmap's descriptor fails (line 16), the function
  returns at once: the query is the only call it has made, so the bitmap was never
  locked and no source address was resolved, and the memory is as it was.
\<close>

theorem getInfo_failure_returns_before_lock:
  assumes "sint (fst (getInfo p (output_bitmap a))) < 0"
  shows "fst (nativeConvertAndroid420ToBitmap p a w) = Inl GetInfoFailed
       \<and> new_calls w (snd (nativeConvertAndroid420ToBitmap p a w))
           = [Called_getInfo (output_bitmap a)]
       \<and> mem (snd (nativeConvertAndroid420ToBitmap p a w)) = mem w
       \<and> locked (snd (nativeConvertAndroid420ToBitmap p a w)) = locked w"
  by (simp add: getInfo_failed_run [OF assms] new_calls_def)

theorem getInfo_failure_returns_before_lock_witness:
  "sint (fst (getInfo demo_platform (output_bitmap no_info_args))) < 0
   \<and> fst (nativeConvertAndroid420ToBitmap demo_platform no_info_args demo_world)
       = Inl GetInfoFailed
   \<and> calls (snd (nativeConvertAndroid420ToBitmap demo_platform no_info_args demo_world))
       = [Called_getInfo 8]"
proof -
  have h: "sint (fst (getInfo demo_platform (output_bitmap no_info_args))) < 0"
    by (simp add: demo_defs)
  have c: "calls demo_world = []" "output_bitmap no_info_args = 8"
    by (simp_all add: demo_defs)
  show ?thesis
    using h getInfo_failure_returns_before_lock [OF h, of demo_world]
    by (simp add: new_calls_def c)
qed

section \<open>The failure of the lock\<close>

text \<open>
  C5, as stated, fails. On a bitmap that can be queried and cannot be locked the
  function leaves through the bare \<^verbatim>\<open>return;\<close> of line 17: its caller receives no
  error value, so no \<^verbatim>\<open>BufferAccessError\<close> either.
\<close>

theorem failed_lock_reports_no_error:
  "\<not> sint (fst (getInfo demo_platform (output_bitmap no_lock_args))) < 0
   \<and> sint (fst (lockPixels demo_platform (output_bitmap no_lock_args))) < 0
   \<and> fst (nativeConvertAndroid420ToBitmap demo_platform no_lock_args demo_world)
       = Inl LockPixelsFailed
   \<and> reported (fst (nativeConvertAndroid420ToBitmap demo_platform no_lock_args demo_world))
       = None
   \<and> reported (fst (nativeConvertAndroid420ToBitmap demo_platform no_lock_args demo_world))
       \<noteq> Some BufferAccessError"
proof -
  have h1: "\<not> sint (fst (getInfo demo_platform (output_bitmap no_lock_args))) < 0"
    by (simp add: demo_defs)
  have h2: "sint (fst (lockPixels demo_platform (output_bitmap no_lock_args))) < 0"
    by (simp add: demo_defs)
  show ?thesis
    using h1 h2 by (simp add: lockPixels_failed_run [OF h1 h2])
qed

text \<open>
  C5, amended. When the bitmap can be queried and its pixels cannot be locked, the
  function returns through its second early return (line 17) and hands its caller no
  error value; the query and the failed lock are the only calls it has made, so the
  conversion routine has not been called, and the memory is as it was.
\<close>

theorem lock_failure_returns_without_conversion:
  assumes "\<not> sint (fst (getInfo p (output_bitmap a))) < 0"
    and "sint (fst (lockPixels p (output_bitmap a))) < 0"
  shows "fst (nativeConvertAndroid420ToBitmap p a w) = Inl LockPixelsFailed
       \<and> reported (fst (nativeConvertAndroid420ToBitmap p a w)) = None
       \<and> conversions (new_calls w (snd (nativeConvertAndroid420ToBitmap p a w))) = []
       \<and> new_calls w (snd (nativeConvertAndroid420ToBitmap p a w))
           = [Called_getInfo (output_bitmap a), Called_lockPixels (output_bitmap a)]
       \<and> mem (snd (nativeConvertAndroid420ToBitmap p a w)) = mem w"
  by (simp add: lockPixels_failed_run [OF assms] new_calls_def)

theorem lock_failure_returns_without_conversion_witness:
  "\<not> sint (fst (getInfo demo_platform (output_bitmap no_lock_args))) < 0
   \<and> sint (fst (lockPixels demo_platform (output_bitmap no_lock_args))) < 0
   \<and> fst (nativeConvertAndroid420ToBitmap demo_platform no_lock_args demo_world)
       = Inl LockPixelsFailed
   \<and> conversions
       (calls (snd (nativeConvertAndroid420ToBitmap demo_platform no_lock_args demo_world)))
       = []"
proof -
  have h1: "\<not> sint (fst (getInfo demo_platform (output_bitmap no_lock_args))) < 0"
    by (simp add: demo_defs)
  have h2: "sint (fst (lockPixels demo_platform (output_bitmap no_lock_args))) < 0"
    by (simp add: demo_defs)
  have c: "calls demo_world = []"
    by (simp add: demo_defs)
  show ?thesis
    using h1 h2 lock_failure_returns_without_conversion [OF h1 h2, of demo_world]
    by (simp add: new_calls_def c)
qed

section \<open>The lock is given back\<close>

text \<open>
  C6. No call ends holding the lock it took: after every call the lock count of every
  bitmap is what it was before, and on the one path that takes the lock (both the query
  and the lock succeeded) the log of the call has the lock as its second entry, all
  other calls after it, and the unlock as its last entry. The two early returns precede
  a successful lock, so no path leaves between lock and unlock.
\<close>

theorem lock_released_on_every_path:
  "locked (snd (nativeConvertAndroid420ToBitmap p a w)) = locked w
   \<and> (Called_lockPixels (output_bitmap a)
         \<in> set (new_calls w (snd (nativeConvertAndroid420ToBitmap p a w)))
       \<and> \<not> sint (fst (lockPixels p (output_bitmap a))) < 0
       \<longrightarrow> new_calls w (snd (nativeConvertAndroid420ToBitmap p a w)) = full_run p a
         \<and> last (new_calls w (snd (nativeConvertAndroid420ToBitmap p a w)))
             = Called_unlockPixels (output_bitmap a))"
proof (cases "sint (fst (getInfo p (output_bitmap a))) < 0")
  case True
  then show ?thesis
    by (simp add: getInfo_failed_run new_calls_def locked_after_run)
next
  case False
  then show ?thesis
    by (cases "sint (fst (lockPixels p (output_bitmap a))) < 0")
       (simp_all add: completed_run new_calls_def full_run_def locked_after_run)
qed

theorem lock_released_on_every_path_witness:
  "Called_lockPixels (output_bitmap demo_args)
     \<in> set (new_calls demo_world
              (snd (nativeConvertAndroid420ToBitmap demo_platform demo_args demo_world)))
   \<and> \<not> sint (fst (lockPixels demo_platform (output_bitmap demo_args))) < 0
   \<and> locked (snd (nativeConvertAndroid420ToBitmap demo_platform demo_args demo_world)) 7 = 0
   \<and> last (calls (snd (nativeConvertAndroid420ToBitmap demo_platform demo_args demo_world)))
       = Called_unlockPixels 7"
proof -
  have h1: "\<not> sint (fst (getInfo demo_platform (output_bitmap demo_args))) < 0"
    by (simp add: demo_defs)
  have h2: "\<not> sint (fst (lockPixels demo_platform (output_bitmap demo_args))) < 0"
    by (simp add: demo_defs)
  have c: "calls demo_world = []" "output_bitmap demo_args = 7" "locked demo_world 7 = 0"
    by (simp_all add: demo_defs)
  have n: "new_calls demo_world
             (snd (nativeConvertAndroid420ToBitmap demo_platform demo_args demo_world))
           = calls (snd (nativeConvertAndroid420ToBitmap demo_platform demo_args demo_world))"
    by (simp add: new_calls_def c)
  have m: "Called_lockPixels (output_bitmap demo_args)
             \<in> set (new_calls demo_world
                  (snd (nativeConvertAndroid420ToBitmap demo_platform demo_args demo_world)))"
    by (simp add: completed_run [OF h1 h2] new_calls_def full_run_def)
  note t = lock_released_on_every_path [of demo_platform demo_args demo_world]
  from t have l: "locked (snd (nativeConvertAndroid420ToBitmap demo_platform demo_args
                     demo_world)) = locked demo_world"
    by (rule conjunct1)
  from t m h2 have u: "last (new_calls demo_world
      (snd (nativeConvertAndroid420ToBitmap demo_platform demo_args demo_world)))
      = Called_unlockPixels (output_bitmap demo_args)"
    by blast
  show ?thesis
    using m h2 l u by (simp only: n c simp_thms)
qed

section \<open>The pixel stride of the V plane\<close>

text \<open>
  C9. The parameter \<^verbatim>\<open>v_pixel_stride\<close> is never read: the conversion gets the pixel
  stride of the U plane (line 35). Two calls that differ in it alone have the same
  result, the same memory, the same lock counts and the same log.
\<close>

theorem v_pixel_stride_is_not_read:
  "nativeConvertAndroid420ToBitmap p (a\<lparr>v_pixel_stride := s\<rparr>) w
   = nativeConvertAndroid420ToBitmap p (a\<lparr>v_pixel_stride := t\<rparr>) w"
  by (simp add: call_defs Let_def case_prod_beta)

section \<open>All or nothing\<close>

text \<open>
  C4, as stated, fails. The claim counts a failed source address resolution among the
  failures that abort the call before the conversion. The source detects no such
  failure: with a U and a V buffer that resolve to \<^verbatim>\<open>NULL\<close>, on a bitmap that can be
  queried and locked, the call does not abort, and the conversion routine is called with
  null chroma planes.
\<close>

theorem null_planes_do_not_abort:
  "DirectBufferAddress demo_platform (u_buffer null_uv_args) = 0
   \<and> DirectBufferAddress demo_platform (v_buffer null_uv_args) = 0
   \<and> fst (nativeConvertAndroid420ToBitmap demo_platform null_uv_args demo_world) = Inr ()
   \<and> conversions
       (calls (snd (nativeConvertAndroid420ToBitmap demo_platform null_uv_args demo_world)))
       = [conversion_args demo_platform null_uv_args]
   \<and> src_u (conversion_args demo_platform null_uv_args) = 0
   \<and> src_v (conversion_args demo_platform null_uv_args) = 0"
proof -
  have h1: "\<not> sint (fst (getInfo demo_platform (output_bitmap null_uv_args))) < 0"
    by (simp add: demo_defs)
  have h2: "\<not> sint (fst (lockPixels demo_platform (output_bitmap null_uv_args))) < 0"
    by (simp add: demo_defs)
  have c: "calls demo_world = []"
    "DirectBufferAddress demo_platform (u_buffer null_uv_args) = 0"
    "DirectBufferAddress demo_platform (v_buffer null_uv_args) = 0"
    by (simp_all add: demo_defs)
  show ?thesis
    by (simp add: completed_run [OF h1 h2] conversions_full_run c conversion_args_def)
qed

text \<open>
  C4, amended. The call aborts exactly when the info query or the lock fails (lines 16
  and 17), and then the conversion routine was not called and the memory is as it was.
  In every other call the routine is called exactly once, on the memory the call started
  with and with the three source addresses as they were resolved, null or not: the memory
  after the call is what the routine leaves. A failed address resolution is not among
  the aborts.
\<close>

theorem conversion_all_or_nothing:
  "(isl (fst (nativeConvertAndroid420ToBitmap p a w))
      = (sint (fst (getInfo p (output_bitmap a))) < 0
         \<or> sint (fst (lockPixels p (output_bitmap a))) < 0))
   \<and> (if isl (fst (nativeConvertAndroid420ToBitmap p a w))
       then conversions (new_calls w (snd (nativeConvertAndroid420ToBitmap p a w))) = []
          \<and> mem (snd (nativeConvertAndroid420ToBitmap p a w)) = mem w
       else fst (nativeConvertAndroid420ToBitmap p a w) = Inr ()
          \<and> conversions (new_calls w (snd (nativeConvertAndroid420ToBitmap p a w)))
              = [conversion_args p a]
          \<and> mem (snd (nativeConvertAndroid420ToBitmap p a w))
              = Android420ToABGR p (conversion_args p a) (mem w)
          \<and> src_y (conversion_args p a) = DirectBufferAddress p (y_buffer a)
          \<and> src_u (conversion_args p a) = DirectBufferAddress p (u_buffer a)
          \<and> src_v (conversion_args p a) = DirectBufferAddress p (v_buffer a))"
proof (cases "sint (fst (getInfo p (output_bitmap a))) < 0")
  case True
  then show ?thesis
    by (simp add: getInfo_failed_run new_calls_def)
next
  case False
  then show ?thesis
    by (cases "sint (fst (lockPixels p (output_bitmap a))) < 0")
       (simp_all add: lockPixels_failed_run completed_run new_calls_def
          conversions_full_run conversion_args_def)
qed

section \<open>Width and height are not checked\<close>

text \<open>
  C1, as stated, fails. The source has no test of \<open>width\<close> or \<open>height\<close>: a call with
  both 0, on a bitmap that can be queried and locked, runs to the end and calls the
  conversion routine with width 0 and height 0.
\<close>

theorem zero_size_reaches_conversion:
  "sint (width zero_size_args) \<le> 0
   \<and> sint (height zero_size_args) \<le> 0
   \<and> fst (nativeConvertAndroid420ToBitmap demo_platform zero_size_args demo_world) = Inr ()
   \<and> conversions
       (calls (snd (nativeConvertAndroid420ToBitmap demo_platform zero_size_args demo_world)))
       = [conversion_args demo_platform zero_size_args]
   \<and> dst_width (conversion_args demo_platform zero_size_args) = 0
   \<and> dst_height (conversion_args demo_platform zero_size_args) = 0"
proof -
  have h1: "\<not> sint (fst (getInfo demo_platform (output_bitmap zero_size_args))) < 0"
    by (simp add: demo_defs)
  have h2: "\<not> sint (fst (lockPixels demo_platform (output_bitmap zero_size_args))) < 0"
    by (simp add: demo_defs)
  have c: "calls demo_world = []" "width zero_size_args = 0" "height zero_size_args = 0"
    by (simp_all add: demo_defs)
  show ?thesis
    by (simp add: completed_run [OF h1 h2] conversions_full_run c conversion_args_def)
qed

text \<open>
  C1, amended. For a call with a width or height that is not positive the function does
  what it does for every call. If the info query or the lock fails it returns early,
  the conversion routine is not called and the memory is as it was. Otherwise it reports
  no error: it calls the conversion routine once, with the width and the height as
  given, the memory after the call is what that routine leaves, and the lock is given
  back.
\<close>

theorem nonpositive_size_is_passed_on:
  assumes "sint (width a) \<le> 0 \<or> sint (height a) \<le> 0"
  shows "if sint (fst (getInfo p (output_bitmap a))) < 0
            \<or> sint (fst (lockPixels p (output_bitmap a))) < 0
         then isl (fst (nativeConvertAndroid420ToBitmap p a w))
            \<and> conversions (new_calls w (snd (nativeConvertAndroid420ToBitmap p a w))) = []
            \<and> mem (snd (nativeConvertAndroid420ToBitmap p a w)) = mem w
         else fst (nativeConvertAndroid420ToBitmap p a w) = Inr ()
            \<and> conversions (new_calls w (snd (nativeConvertAndroid420ToBitmap p a w)))
                = [conversion_args p a]
            \<and> dst_width (conversion_args p a) = width a
            \<and> dst_height (conversion_args p a) = height a
            \<and> mem (snd (nativeConvertAndroid420ToBitmap p a w))
                = Android420ToABGR p (conversion_args p a) (mem w)
            \<and> locked (snd (nativeConvertAndroid420ToBitmap p a w)) = locked w"
proof (cases "sint (fst (getInfo p (output_bitmap a))) < 0")
  case True
  then show ?thesis
    by (simp add: getInfo_failed_run new_calls_def)
next
  case False
  then show ?thesis
    by (cases "sint (fst (lockPixels p (output_bitmap a))) < 0")
       (simp_all add: lockPixels_failed_run completed_run new_calls_def
          conversions_full_run conversion_args_def)
qed

theorem nonpositive_size_is_passed_on_witness:
  "(sint (width zero_size_args) \<le> 0 \<or> sint (height zero_size_args) \<le> 0)
   \<and> fst (nativeConvertAndroid420ToBitmap demo_platform zero_size_args demo_world) = Inr ()
   \<and> locked (snd (nativeConvertAndroid420ToBitmap demo_platform zero_size_args demo_world)) 7
       = 0"
proof -
  have h: "sint (width zero_size_args) \<le> 0 \<or> sint (height zero_size_args) \<le> 0"
    by (simp add: demo_defs)
  have g: "\<not> (sint (fst (getInfo demo_platform (output_bitmap zero_size_args))) < 0
            \<or> sint (fst (lockPixels demo_platform (output_bitmap zero_size_args))) < 0)"
    by (simp add: demo_defs)
  have c: "locked demo_world 7 = 0"
    by (simp add: demo_defs)
  show ?thesis
    using h g nonpositive_size_is_passed_on [OF h, of demo_platform demo_world]
    by (simp add: c)
qed

section \<open>Source addresses are not checked\<close>

text \<open>
  C2, as stated, fails. The source does not test what \<^verbatim>\<open>GetDirectBufferAddress\<close>
  returns: with a Y buffer that resolves to \<^verbatim>\<open>NULL\<close>, on a bitmap that can be queried
  and locked, the call runs to the end and the conversion routine is called with the
  null address as its Y plane.
\<close>

theorem null_address_reaches_conversion:
  "DirectBufferAddress demo_platform (y_buffer null_y_args) = 0
   \<and> fst (nativeConvertAndroid420ToBitmap demo_platform null_y_args demo_world) = Inr ()
   \<and> conversions
       (calls (snd (nativeConvertAndroid420ToBitmap demo_platform null_y_args demo_world)))
       = [conversion_args demo_platform null_y_args]
   \<and> src_y (conversion_args demo_platform null_y_args) = 0"
proof -
  have h1: "\<not> sint (fst (getInfo demo_platform (output_bitmap null_y_args))) < 0"
    by (simp add: demo_defs)
  have h2: "\<not> sint (fst (lockPixels demo_platform (output_bitmap null_y_args))) < 0"
    by (simp add: demo_defs)
  have c: "calls demo_world = []" "DirectBufferAddress demo_platform (y_buffer null_y_args) = 0"
    by (simp_all add: demo_defs)
  show ?thesis
    by (simp add: completed_run [OF h1 h2] conversions_full_run c conversion_args_def)
qed

text \<open>
  C2, amended. When the bitmap can be queried and locked and a source buffer resolves
  to the null address, the call does not abort: the three addresses go to the conversion
  routine as resolved, the routine is called once, after the lock and the three
  resolutions and before the unlock, and the call runs to the end with the lock given
  back.
\<close>

theorem null_address_is_passed_on:
  assumes "DirectBufferAddress p (y_buffer a) = 0
         \<or> DirectBufferAddress p (u_buffer a) = 0
         \<or> DirectBufferAddress p (v_buffer a) = 0"
    and "\<not> sint (fst (getInfo p (output_bitmap a))) < 0"
    and "\<not> sint (fst (lockPixels p (output_bitmap a))) < 0"
  shows "fst (nativeConvertAndroid420ToBitmap p a w) = Inr ()
       \<and> new_calls w (snd (nativeConvertAndroid420ToBitmap p a w)) = full_run p a
       \<and> src_y (conversion_args p a) = DirectBufferAddress p (y_buffer a)
       \<and> src_u (conversion_args p a) = DirectBufferAddress p (u_buffer a)
       \<and> src_v (conversion_args p a) = DirectBufferAddress p (v_buffer a)
       \<and> locked (snd (nativeConvertAndroid420ToBitmap p a w)) = locked w"
  by (simp add: completed_run [OF assms(2,3)] new_calls_def conversion_args_def)

theorem null_address_is_passed_on_witness:
  "(DirectBufferAddress demo_platform (y_buffer null_y_args) = 0
     \<or> DirectBufferAddress demo_platform (u_buffer null_y_args) = 0
     \<or> DirectBufferAddress demo_platform (v_buffer null_y_args) = 0)
   \<and> \<not> sint (fst (getInfo demo_platform (output_bitmap null_y_args))) < 0
   \<and> \<not> sint (fst (lockPixels demo_platform (output_bitmap null_y_args))) < 0
   \<and> fst (nativeConvertAndroid420ToBitmap demo_platform null_y_args demo_world) = Inr ()
   \<and> src_y (conversion_args demo_platform null_y_args) = 0"
proof -
  have h0: "DirectBufferAddress demo_platform (y_buffer null_y_args) = 0
     \<or> DirectBufferAddress demo_platform (u_buffer null_y_args) = 0
     \<or> DirectBufferAddress demo_platform (v_buffer null_y_args) = 0"
    by (simp add: demo_defs)
  have h1: "\<not> sint (fst (getInfo demo_platform (output_bitmap null_y_args))) < 0"
    by (simp add: demo_defs)
  have h2: "\<not> sint (fst (lockPixels demo_platform (output_bitmap null_y_args))) < 0"
    by (simp add: demo_defs)
  have c: "DirectBufferAddress demo_platform (y_buffer null_y_args) = 0"
    by (simp add: demo_defs)
  show ?thesis
    using h0 h1 h2 null_address_is_passed_on [OF h0 h1 h2, of demo_world]
    by (simp add: c)
qed

section \<open>The writes of the modelled routine\<close>

subsection \<open>What a conversion leaves alone\<close>

lemma store_pixel_other:
  "d' < d \<or> d + 4 \<le> d' \<Longrightarrow> store_pixel d c m d' = m d'"
  by (auto simp: store_pixel_def)

lemma store_pixel_byte:
  "k < 4 \<Longrightarrow> store_pixel d c m (d + int k) = colour_bytes c ! k"
proof -
  assume "k < 4"
  then consider "k = 0" | "k = 1" | "k = 2" | "k = 3" by linarith
  then show ?thesis
    by cases (simp_all add: store_pixel_def colour_bytes_def)
qed

lemma convert_row_other:
  "d < pixel_address a 0 y \<or> pixel_address a 0 y + 4 * int n \<le> d
   \<Longrightarrow> convert_row tf a y n m d = m d"
proof (induction n)
  case 0
  then show ?case by simp
next
  case (Suc n)
  then have "d < pixel_address a n y \<or> pixel_address a n y + 4 \<le> d"
    by (auto simp: pixel_address_def)
  moreover from Suc have "convert_row tf a y n m d = m d"
    by auto
  ultimately show ?case
    by (simp add: Let_def store_pixel_other)
qed

lemma row_start_mono:
  assumes "0 \<le> (s::int)" "y < r"
  shows "s * int y + s \<le> s * int r"
proof -
  have "int y + 1 \<le> int r" using assms(2) by simp
  then have "s * (int y + 1) \<le> s * int r"
    using assms(1) by (rule mult_left_mono)
  then show ?thesis by (simp add: algebra_simps)
qed

lemma convert_rows_other:
  "(\<And>y. y < r \<Longrightarrow> \<not> in_row a y d) \<Longrightarrow> convert_rows tf a r m d = m d"
proof (induction r)
  case 0
  then show ?case by simp
next
  case (Suc r)
  have "\<not> in_row a r d" using Suc.prems by simp
  then have "convert_row tf a r (cols a) (convert_rows tf a r m) d = convert_rows tf a r m d"
    by (intro convert_row_other) (auto simp: in_row_def)
  moreover have "convert_rows tf a r m d = m d"
    using Suc by simp
  ultimately show ?case by simp
qed

lemma convert_rows_no_cols: "cols a = 0 \<Longrightarrow> convert_rows tf a r m = m"
  by (induction r) simp_all

lemma in_row_in_destination:
  assumes fit: "4 * int (cols a) \<le> sint (dst_stride_abgr a)"
    and y: "y < rows a" and d: "in_row a y d"
  shows "in_destination a d"
proof -
  let ?s = "sint (dst_stride_abgr a)"
  have s: "0 \<le> ?s" using fit by linarith
  then have lo: "0 \<le> ?s * int y" by simp
  have hi: "?s * int y + ?s \<le> ?s * int (rows a)"
    using s y by (rule row_start_mono)
  from d have "dst_abgr a + ?s * int y \<le> d" "d < dst_abgr a + ?s * int y + 4 * int (cols a)"
    by (simp_all add: in_row_def pixel_address_def)
  with lo hi fit show ?thesis
    unfolding in_destination_def by linarith
qed

lemma convert_rows_outside:
  assumes fit: "4 * int (cols a) \<le> sint (dst_stride_abgr a)"
    and r: "r \<le> rows a" and d: "\<not> in_destination a d"
  shows "convert_rows tf a r m d = m d"
proof (rule convert_rows_other)
  fix y assume "y < r"
  then have "y < rows a" using r by simp
  then show "\<not> in_row a y d"
    using in_row_in_destination [OF fit] d by blast
qed

subsection \<open>What a conversion writes\<close>

lemma pixel_colour_cong:
  assumes "m' (luma_address a x y) = m (luma_address a x y)"
    and "m' (u_address a x y) = m (u_address a x y)"
    and "m' (v_address a x y) = m (v_address a x y)"
  shows "pixel_colour tf a m' x y = pixel_colour tf a m x y"
  using assms by (simp add: pixel_colour_def)

lemma sources_apartD:
  assumes "sources_apart a" "x < cols a" "y < rows a"
  shows "\<not> in_destination a (luma_address a x y)"
    and "\<not> in_destination a (u_address a x y)"
    and "\<not> in_destination a (v_address a x y)"
  using assms by (auto simp: sources_apart_def list_all_iff)

lemma convert_row_pixel:
  assumes n: "n \<le> cols a"
    and apart: "\<And>x. x < n \<Longrightarrow>
      \<not> in_row a y (luma_address a x y) \<and> \<not> in_row a y (u_address a x y)
      \<and> \<not> in_row a y (v_address a x y)"
    and x: "x < n" and k: "k < 4"
  shows "convert_row tf a y n m (pixel_address a x y + int k)
         = colour_bytes (pixel_colour tf a m x y) ! k"
  using n apart x
proof (induction n)
  case 0
  then show ?case by simp
next
  case (Suc n)
  let ?m = "convert_row tf a y n m"
  have unch: "\<And>d. \<not> in_row a y d \<Longrightarrow> ?m d = m d"
    using Suc.prems(1) by (intro convert_row_other) (auto simp: in_row_def)
  show ?case
  proof (cases "x = n")
    case True
    have "pixel_colour tf a ?m n y = pixel_colour tf a m n y"
      using Suc.prems(2) [of n] by (intro pixel_colour_cong unch) simp_all
    with True k show ?thesis
      by (simp add: Let_def store_pixel_byte)
  next
    case False
    then have xn: "x < n" using Suc.prems(3) by simp
    then have "pixel_address a x y + int k < pixel_address a n y"
      using k by (simp add: pixel_address_def)
    then have "convert_row tf a y (Suc n) m (pixel_address a x y + int k)
               = ?m (pixel_address a x y + int k)"
      by (simp add: Let_def store_pixel_other)
    also have "\<dots> = colour_bytes (pixel_colour tf a m x y) ! k"
      using Suc.IH Suc.prems xn by simp
    finally show ?thesis .
  qed
qed

lemma convert_rows_pixel:
  assumes fit: "4 * int (cols a) \<le> sint (dst_stride_abgr a)"
    and apart: "sources_apart a"
    and r: "r \<le> rows a" and y: "y < r" and x: "x < cols a" and k: "k < 4"
  shows "convert_rows tf a r m (pixel_address a x y + int k)
         = colour_bytes (pixel_colour tf a m x y) ! k"
  using r y
proof (induction r)
  case 0
  then show ?case by simp
next
  case (Suc r)
  let ?s = "sint (dst_stride_abgr a)"
  let ?m = "convert_rows tf a r m"
  have s: "0 \<le> ?s" using fit by linarith
  have rr: "r < rows a" "r \<le> rows a" using Suc.prems(1) by simp_all
  have unch: "\<And>d. \<not> in_destination a d \<Longrightarrow> ?m d = m d"
    using fit rr(2) by (rule convert_rows_outside)
  show ?case
  proof (cases "y = r")
    case True
    have out: "\<And>x'. x' < cols a \<Longrightarrow>
        \<not> in_row a r (luma_address a x' r) \<and> \<not> in_row a r (u_address a x' r)
        \<and> \<not> in_row a r (v_address a x' r)"
      using sources_apartD [OF apart _ rr(1)] in_row_in_destination [OF fit rr(1)]
      by blast
    have "convert_row tf a r (cols a) ?m (pixel_address a x r + int k)
          = colour_bytes (pixel_colour tf a ?m x r) ! k"
      using out x k by (intro convert_row_pixel) simp_all
    moreover have "pixel_colour tf a ?m x r = pixel_colour tf a m x r"
      using sources_apartD [OF apart x rr(1)] by (intro pixel_colour_cong unch)
    ultimately show ?thesis
      using True by simp
  next
    case False
    then have yr: "y < r" using Suc.prems(2) by simp
    have "?s * int y + ?s \<le> ?s * int r"
      using s yr by (rule row_start_mono)
    then have "pixel_address a x y + int k < pixel_address a 0 r"
      using fit x k by (simp add: pixel_address_def)
    then have "convert_row tf a r (cols a) ?m (pixel_address a x y + int k)
               = ?m (pixel_address a x y + int k)"
      by (intro convert_row_other) simp
    also have "\<dots> = colour_bytes (pixel_colour tf a m x y) ! k"
      using Suc.IH rr(2) yr by simp
    finally show ?thesis by simp
  qed
qed

lemma pixel_of_in_row:
  assumes "in_row a y d"
  obtains x k where "x < cols a" "k < 4" "d = pixel_address a x y + int k"
proof -
  let ?o = "d - pixel_address a 0 y"
  from assms have o: "0 \<le> ?o" "?o < 4 * int (cols a)"
    by (simp_all add: in_row_def)
  have "nat (?o div 4) < cols a" using o by linarith
  moreover have "nat (?o mod 4) < 4" by simp
  moreover have "d = pixel_address a (nat (?o div 4)) y + int (nat (?o mod 4))"
  proof -
    have "0 \<le> ?o div 4" using o(1) by linarith
    then have q: "int (nat (?o div 4)) = ?o div 4" by (rule nat_0_le)
    have r: "int (nat (?o mod 4)) = ?o mod 4" by simp
    have "pixel_address a (nat (?o div 4)) y
          = pixel_address a 0 y + 4 * int (nat (?o div 4))"
      by (simp add: pixel_address_def)
    then have "pixel_address a (nat (?o div 4)) y = pixel_address a 0 y + 4 * (?o div 4)"
      by (simp only: q)
    moreover have "?o = 4 * (?o div 4) + ?o mod 4" by simp
    ultimately show ?thesis unfolding r by linarith
  qed
  ultimately show thesis by (rule that)
qed

lemma conversion_args_simps:
  "dst_abgr (conversion_args p a) = destination p a"
  "sint (dst_stride_abgr (conversion_args p a)) = destination_stride p a"
  "cols (conversion_args p a) = nat (sint (width a))"
  "rows (conversion_args p a) = nat (sint (height a))"
  by (simp_all add: conversion_args_def destination_def destination_stride_def
      cols_def rows_def)

lemma upt_two: "[0..<2] = [0, 1::nat]"
  by (simp add: numeral_2_eq_2)

section \<open>Row padding\<close>

text \<open>
  C8. On a call that runs to the end, with the routine as the specification describes
  it and a destination stride greater than \<open>4 * width\<close>, the bytes of every row at
  offsets from \<open>4 * width\<close> up to the stride are as they were before the call, and so
  is every byte outside the destination region of \<open>stride * height\<close> bytes.
\<close>

theorem padding_and_outside_untouched:
  assumes routine: "Android420ToABGR p = Android420ToABGR_spec tf"
    and ok: "fst (nativeConvertAndroid420ToBitmap p a w) = Inr ()"
    and wide: "4 * sint (width a) < destination_stride p a"
  shows "(\<forall>y off. int y < sint (height a) \<and> 4 * sint (width a) \<le> off
            \<and> off < destination_stride p a
          \<longrightarrow> mem (snd (nativeConvertAndroid420ToBitmap p a w))
                (destination p a + destination_stride p a * int y + off)
              = mem w (destination p a + destination_stride p a * int y + off))
       \<and> (\<forall>d. d < destination p a
              \<or> destination p a + destination_stride p a * sint (height a) \<le> d
          \<longrightarrow> mem (snd (nativeConvertAndroid420ToBitmap p a w)) d = mem w d)"
proof -
  let ?a = "conversion_args p a"
  let ?s = "destination_stride p a"
  have m: "mem (snd (nativeConvertAndroid420ToBitmap p a w))
           = convert_rows tf ?a (rows ?a) (mem w)"
    using completed_mem [OF ok] by (simp add: routine Android420ToABGR_spec_def)
  show ?thesis
  proof (cases "cols ?a = 0")
    case True
    then show ?thesis by (simp add: m convert_rows_no_cols)
  next
    case False
    then have w: "int (cols ?a) = sint (width a)"
      by (simp add: conversion_args_simps)
    then have f: "4 * int (cols ?a) \<le> sint (dst_stride_abgr ?a)"
      using wide by (simp add: conversion_args_simps)
    have s: "0 \<le> ?s" using wide w by linarith
    have pad: "convert_rows tf ?a (rows ?a) (mem w) (destination p a + ?s * int y + off)
               = mem w (destination p a + ?s * int y + off)"
      if y: "int y < sint (height a)" and lo: "4 * sint (width a) \<le> off" and hi: "off < ?s"
      for y off
    proof (rule convert_rows_other)
      fix y' assume "y' < rows ?a"
      show "\<not> in_row ?a y' (destination p a + ?s * int y + off)"
      proof (cases y' y rule: linorder_cases)
        case less
        then have "?s * int y' + ?s \<le> ?s * int y" using s by (intro row_start_mono)
        then show ?thesis
          using lo hi w f by (simp add: in_row_def pixel_address_def conversion_args_simps)
      next
        case equal
        then show ?thesis
          using lo w by (simp add: in_row_def pixel_address_def conversion_args_simps)
      next
        case greater
        then have "?s * int y + ?s \<le> ?s * int y'" using s by (intro row_start_mono)
        then show ?thesis
          using hi by (simp add: in_row_def pixel_address_def conversion_args_simps)
      qed
    qed
    have out: "convert_rows tf ?a (rows ?a) (mem w) d = mem w d"
      if d: "d < destination p a \<or> destination p a + ?s * sint (height a) \<le> d" for d
    proof (rule convert_rows_outside [OF f order_refl])
      show "\<not> in_destination ?a d"
      proof (cases "rows ?a = 0")
        case True
        then show ?thesis by (simp add: in_destination_def)
      next
        case False
        then have "int (rows ?a) = sint (height a)"
          by (simp add: conversion_args_simps)
        then show ?thesis
          using d by (auto simp: in_destination_def conversion_args_simps)
      qed
    qed
    show ?thesis
      using pad out by (simp add: m)
  qed
qed

theorem padding_and_outside_untouched_witness:
  "fst (nativeConvertAndroid420ToBitmap yuv_platform padded_args yuv_world) = Inr ()
   \<and> 4 * sint (width padded_args) < destination_stride yuv_platform padded_args
   \<and> mem (snd (nativeConvertAndroid420ToBitmap yuv_platform padded_args yuv_world)) 1008
       = mem yuv_world 1008
   \<and> mem (snd (nativeConvertAndroid420ToBitmap yuv_platform padded_args yuv_world)) 1023
       = mem yuv_world 1023
   \<and> mem (snd (nativeConvertAndroid420ToBitmap yuv_platform padded_args yuv_world)) 1024
       = mem yuv_world 1024
   \<and> mem (snd (nativeConvertAndroid420ToBitmap yuv_platform padded_args yuv_world)) 999
       = mem yuv_world 999"
proof -
  have routine: "Android420ToABGR yuv_platform = Android420ToABGR_spec demo_transform"
    by (simp add: yuv_defs)
  have ok: "fst (nativeConvertAndroid420ToBitmap yuv_platform padded_args yuv_world) = Inr ()"
    by (simp add: completed_iff yuv_defs)
  have wide: "4 * sint (width padded_args) < destination_stride yuv_platform padded_args"
    by (simp add: yuv_defs address_defs)
  have d: "destination yuv_platform padded_args = 1000"
    "destination_stride yuv_platform padded_args = 12"
    "sint (width padded_args) = 2" "sint (height padded_args) = 2"
    by (simp_all add: yuv_defs address_defs)
  note t = padding_and_outside_untouched [OF routine ok wide, unfolded d]
  from t have pad: "\<And>y off. int y < 2 \<and> 4 * 2 \<le> off \<and> off < 12 \<Longrightarrow>
      mem (snd (nativeConvertAndroid420ToBitmap yuv_platform padded_args yuv_world))
        (1000 + 12 * int y + off) = mem yuv_world (1000 + 12 * int y + off)"
    by blast
  from t have out: "\<And>d. d < 1000 \<or> 1000 + 12 * 2 \<le> d \<Longrightarrow>
      mem (snd (nativeConvertAndroid420ToBitmap yuv_platform padded_args yuv_world)) d
      = mem yuv_world d"
    by blast
  show ?thesis
    using ok wide pad [of 0 8] pad [of 1 11] out [of 1024] out [of 999]
    by simp
qed

section \<open>Planar and interleaved chroma\<close>

lemma encodes_pixel_colour:
  assumes e: "encodes img l a m"
    and s: "sint (src_pixel_stride_uv a) = chroma_step l"
    and x: "x < cols a" and y: "y < rows a"
  shows "pixel_colour tf a m x y = image_colour tf img x y"
proof -
  have i: "x div 2 < (cols a + 1) div 2" and j: "y div 2 < (rows a + 1) div 2"
    using x y by simp_all
  from e x y have "m (luma_address a x y) = luma img x y"
    by (simp add: encodes_def list_all_iff luma_address_def)
  moreover from e i j have "m (u_address a x y) = chroma_u img (x div 2) (y div 2)"
    by (simp add: encodes_def list_all_iff u_address_def s)
  moreover from e i j have "m (v_address a x y) = chroma_v img (x div 2) (y div 2)"
    by (simp add: encodes_def list_all_iff v_address_def s)
  ultimately show ?thesis
    by (simp add: pixel_colour_def image_colour_def)
qed

lemma conversion_args_pixel_stride:
  "src_pixel_stride_uv (conversion_args p a) = u_pixel_stride a"
  by (simp add: conversion_args_def)

lemma encoded_image_converted:
  assumes fit: "4 * int (cols a) \<le> sint (dst_stride_abgr a)"
    and apart: "sources_apart a"
    and e: "encodes img l a m"
    and s: "sint (src_pixel_stride_uv a) = chroma_step l"
    and x: "x < cols a" and y: "y < rows a" and k: "k < 4"
  shows "Android420ToABGR_spec tf a m (pixel_address a x y + int k)
         = colour_bytes (image_colour tf img x y) ! k"
proof -
  have "convert_rows tf a (rows a) m (pixel_address a x y + int k)
        = colour_bytes (pixel_colour tf a m x y) ! k"
    using fit apart y x k by (intro convert_rows_pixel) simp_all
  then show ?thesis
    by (simp add: Android420ToABGR_spec_def encodes_pixel_colour [OF e s x y])
qed

lemma upt_four: "[0..<4] = [0, 1, 2, 3::nat]"
  by (simp add: eval_nat_numeral)

lemma upt_one: "[0..<1] = [0::nat]"
  by simp

lemmas wide_eval =
  wide_defs address_defs upt_two upt_four upt_one

lemma wide_planar_apart: "sources_apart (conversion_args wide_platform wide_planar_args)"
  by (simp add: sources_apart_def wide_eval)

lemma wide_interleaved_apart:
  "sources_apart (conversion_args wide_platform wide_interleaved_args)"
  by (simp add: sources_apart_def wide_eval)

lemma wide_planar_encodes:
  "encodes wide_image Planar (conversion_args wide_platform wide_planar_args) (mem wide_world)"
  by (simp add: encodes_def wide_eval)

lemma wide_interleaved_encodes:
  "encodes wide_image Interleaved (conversion_args wide_platform wide_interleaved_args)
     (mem wide_world)"
  by (simp add: encodes_def wide_eval)

text \<open>
  The two layouts are told apart on this memory: read as planar chroma, the interleaved
  buffers do not hold the image.
\<close>

lemma wide_interleaved_not_planar:
  "\<not> encodes wide_image Planar (conversion_args wide_platform wide_interleaved_args)
       (mem wide_world)"
  by (simp add: encodes_def wide_eval)

text \<open>
  C7. Take two calls that run to the end, with the routine as the specification
  describes it, for the same bitmap and the same width and height: one is given chroma
  pixel stride 1 and buffers that hold an image with planar chroma, the other chroma
  pixel stride 2 and buffers that hold the same image with interleaved chroma. If the
  rows fit into the destination stride and the destination aliases no source plane,
  then after both calls every byte of every pixel of the destination is the byte the
  transform gives for that pixel of the image, the same in both, and every other byte
  of the destination region that was the same before the two calls is the same after
  them.
\<close>

theorem planar_and_semiplanar_agree:
  assumes routine: "Android420ToABGR p = Android420ToABGR_spec tf"
    and ok1: "fst (nativeConvertAndroid420ToBitmap p a1 w1) = Inr ()"
    and ok2: "fst (nativeConvertAndroid420ToBitmap p a2 w2) = Inr ()"
    and planar: "u_pixel_stride a1 = 1" and semi: "u_pixel_stride a2 = 2"
    and dims: "width a1 = width a2" "height a1 = height a2"
      "output_bitmap a1 = output_bitmap a2"
    and fit: "4 * sint (width a1) \<le> destination_stride p a1"
    and apart1: "sources_apart (conversion_args p a1)"
    and apart2: "sources_apart (conversion_args p a2)"
    and enc1: "encodes img Planar (conversion_args p a1) (mem w1)"
    and enc2: "encodes img Interleaved (conversion_args p a2) (mem w2)"
  shows "(\<forall>x y k. int x < sint (width a1) \<and> int y < sint (height a1) \<and> k < 4 \<longrightarrow>
            mem (snd (nativeConvertAndroid420ToBitmap p a1 w1))
              (destination p a1 + destination_stride p a1 * int y + 4 * int x + int k)
            = colour_bytes (image_colour tf img x y) ! k
          \<and> mem (snd (nativeConvertAndroid420ToBitmap p a2 w2))
              (destination p a1 + destination_stride p a1 * int y + 4 * int x + int k)
            = colour_bytes (image_colour tf img x y) ! k)
       \<and> (\<forall>d. in_destination (conversion_args p a1) d \<and> mem w1 d = mem w2 d \<longrightarrow>
            mem (snd (nativeConvertAndroid420ToBitmap p a1 w1)) d
            = mem (snd (nativeConvertAndroid420ToBitmap p a2 w2)) d)"
proof -
  let ?a = "conversion_args p a1" and ?b = "conversion_args p a2"
  have m1: "mem (snd (nativeConvertAndroid420ToBitmap p a1 w1))
            = Android420ToABGR_spec tf ?a (mem w1)"
    using completed_mem [OF ok1] by (simp add: routine)
  have m2: "mem (snd (nativeConvertAndroid420ToBitmap p a2 w2))
            = Android420ToABGR_spec tf ?b (mem w2)"
    using completed_mem [OF ok2] by (simp add: routine)
  have eq: "cols ?b = cols ?a" "rows ?b = rows ?a"
    "\<And>x y. pixel_address ?b x y = pixel_address ?a x y"
    "\<And>y d. in_row ?b y d = in_row ?a y d"
    "sint (dst_stride_abgr ?b) = sint (dst_stride_abgr ?a)"
    using dims
    by (simp_all add: in_row_def pixel_address_def conversion_args_simps
        destination_def destination_stride_def)
  have s1: "sint (src_pixel_stride_uv ?a) = chroma_step Planar"
    by (simp add: conversion_args_pixel_stride planar)
  have s2: "sint (src_pixel_stride_uv ?b) = chroma_step Interleaved"
    by (simp add: conversion_args_pixel_stride semi)
  have pa: "\<And>x y. pixel_address ?a x y
            = destination p a1 + destination_stride p a1 * int y + 4 * int x"
    by (simp add: pixel_address_def conversion_args_simps)
  have px: "Android420ToABGR_spec tf ?a (mem w1) (pixel_address ?a x y + int k)
              = colour_bytes (image_colour tf img x y) ! k
          \<and> Android420ToABGR_spec tf ?b (mem w2) (pixel_address ?a x y + int k)
              = colour_bytes (image_colour tf img x y) ! k"
    if x: "x < cols ?a" and y: "y < rows ?a" and k: "k < 4" for x y k
  proof -
    have w: "int (cols ?a) = sint (width a1)"
      using x by (simp add: conversion_args_simps)
    have f1: "4 * int (cols ?a) \<le> sint (dst_stride_abgr ?a)"
      using fit w by (simp add: conversion_args_simps)
    have f2: "4 * int (cols ?b) \<le> sint (dst_stride_abgr ?b)"
      using f1 by (simp add: eq)
    have x2: "x < cols ?b" and y2: "y < rows ?b"
      using x y by (simp_all add: eq)
    have "Android420ToABGR_spec tf ?a (mem w1) (pixel_address ?a x y + int k)
          = colour_bytes (image_colour tf img x y) ! k"
      using f1 apart1 enc1 s1 x y k by (rule encoded_image_converted)
    moreover have "Android420ToABGR_spec tf ?b (mem w2) (pixel_address ?b x y + int k)
          = colour_bytes (image_colour tf img x y) ! k"
      using f2 apart2 enc2 s2 x2 y2 k by (rule encoded_image_converted)
    ultimately show ?thesis by (simp add: eq)
  qed
  have pixels: "\<forall>x y k. int x < sint (width a1) \<and> int y < sint (height a1) \<and> k < 4 \<longrightarrow>
            mem (snd (nativeConvertAndroid420ToBitmap p a1 w1))
              (destination p a1 + destination_stride p a1 * int y + 4 * int x + int k)
            = colour_bytes (image_colour tf img x y) ! k
          \<and> mem (snd (nativeConvertAndroid420ToBitmap p a2 w2))
              (destination p a1 + destination_stride p a1 * int y + 4 * int x + int k)
            = colour_bytes (image_colour tf img x y) ! k"
  proof (intro allI impI)
    fix x y and k :: nat
    assume h: "int x < sint (width a1) \<and> int y < sint (height a1) \<and> k < 4"
    then have "x < cols ?a" "y < rows ?a" "k < 4"
      by (auto simp: conversion_args_simps)
    from px [OF this] show "mem (snd (nativeConvertAndroid420ToBitmap p a1 w1))
              (destination p a1 + destination_stride p a1 * int y + 4 * int x + int k)
            = colour_bytes (image_colour tf img x y) ! k
          \<and> mem (snd (nativeConvertAndroid420ToBitmap p a2 w2))
              (destination p a1 + destination_stride p a1 * int y + 4 * int x + int k)
            = colour_bytes (image_colour tf img x y) ! k"
      by (simp add: m1 m2 pa)
  qed
  have rest: "\<forall>d. in_destination ?a d \<and> mem w1 d = mem w2 d \<longrightarrow>
            mem (snd (nativeConvertAndroid420ToBitmap p a1 w1)) d
            = mem (snd (nativeConvertAndroid420ToBitmap p a2 w2)) d"
  proof (intro allI impI)
    fix d
    assume d: "in_destination ?a d \<and> mem w1 d = mem w2 d"
    show "mem (snd (nativeConvertAndroid420ToBitmap p a1 w1)) d
          = mem (snd (nativeConvertAndroid420ToBitmap p a2 w2)) d"
    proof (cases "\<exists>y < rows ?a. in_row ?a y d")
      case True
      then obtain y where y: "y < rows ?a" and r: "in_row ?a y d" by blast
      from r obtain x k where x: "x < cols ?a" and k: "k < 4"
        and dd: "d = pixel_address ?a x y + int k"
        by (rule pixel_of_in_row)
      from px [OF x y k] show ?thesis
        by (simp add: m1 m2 dd)
    next
      case False
      then have "convert_rows tf ?a (rows ?a) (mem w1) d = mem w1 d"
        by (intro convert_rows_other) blast
      moreover from False have "convert_rows tf ?b (rows ?b) (mem w2) d = mem w2 d"
        by (intro convert_rows_other) (simp add: eq)
      ultimately show ?thesis
        using d by (simp add: m1 m2 Android420ToABGR_spec_def)
    qed
  qed
  from pixels rest show ?thesis by (rule conjI)
qed

theorem planar_and_semiplanar_agree_witness:
  "fst (nativeConvertAndroid420ToBitmap wide_platform wide_planar_args wide_world) = Inr ()
   \<and> fst (nativeConvertAndroid420ToBitmap wide_platform wide_interleaved_args wide_world)
       = Inr ()
   \<and> u_pixel_stride wide_planar_args = 1
   \<and> u_pixel_stride wide_interleaved_args = 2
   \<and> encodes wide_image Planar (conversion_args wide_platform wide_planar_args)
        (mem wide_world)
   \<and> encodes wide_image Interleaved (conversion_args wide_platform wide_interleaved_args)
        (mem wide_world)
   \<and> map (mem (snd (nativeConvertAndroid420ToBitmap wide_platform wide_planar_args
                      wide_world))) [1028, 1029, 1030, 1031] = [66, 23, 77, 255]
   \<and> map (mem (snd (nativeConvertAndroid420ToBitmap wide_platform wide_interleaved_args
                      wide_world))) [1028, 1029, 1030, 1031] = [66, 23, 77, 255]"
proof -
  let ?r1 = "nativeConvertAndroid420ToBitmap wide_platform wide_planar_args wide_world"
  let ?r2 = "nativeConvertAndroid420ToBitmap wide_platform wide_interleaved_args wide_world"
  have routine: "Android420ToABGR wide_platform = Android420ToABGR_spec demo_transform"
    by (simp add: wide_defs)
  have ok1: "fst ?r1 = Inr ()"
    by (simp add: completed_iff wide_defs)
  have ok2: "fst ?r2 = Inr ()"
    by (simp add: completed_iff wide_defs)
  have st: "u_pixel_stride wide_planar_args = 1" "u_pixel_stride wide_interleaved_args = 2"
    by (simp_all add: wide_defs)
  have dims: "width wide_planar_args = width wide_interleaved_args"
    "height wide_planar_args = height wide_interleaved_args"
    "output_bitmap wide_planar_args = output_bitmap wide_interleaved_args"
    by (simp_all add: wide_defs)
  have fit: "4 * sint (width wide_planar_args)
             \<le> destination_stride wide_platform wide_planar_args"
    by (simp add: wide_defs address_defs)
  have d: "destination wide_platform wide_planar_args = 1000"
    "destination_stride wide_platform wide_planar_args = 16"
    "sint (width wide_planar_args) = 4" "sint (height wide_planar_args) = 2"
    by (simp_all add: wide_defs address_defs)
  have c: "colour_bytes (image_colour demo_transform wide_image 3 (Suc 0))
           = [66, 23, 77, 255]"
    by (simp add: colour_bytes_def image_colour_def wide_defs)
  note t = planar_and_semiplanar_agree [OF routine ok1 ok2 st dims fit wide_planar_apart
      wide_interleaved_apart wide_planar_encodes wide_interleaved_encodes, unfolded d]
  note a = t [THEN conjunct1, rule_format]
  have e: "mem (snd ?r1) (1028 + int k)
             = colour_bytes (image_colour demo_transform wide_image 3 (Suc 0)) ! k
         \<and> mem (snd ?r2) (1028 + int k)
             = colour_bytes (image_colour demo_transform wide_image 3 (Suc 0)) ! k"
    if "k < 4" for k
    using a [of 3 "Suc 0" k] that by simp
  show ?thesis
    using ok1 ok2 st wide_planar_encodes wide_interleaved_encodes
      e [of 0] e [of 1] e [of 2] e [of 3]
    by (simp add: c)
qed

end
